theory Spec2Isabelle
  imports Complex_Main "HOL-Library.Sublist"
begin

section \<open>weather-cli: a shallow embedding of main.go\<close>

text \<open>
  The program is one Go file. Strings are Go strings: sequences of bytes, so every
  character outside ASCII appears as its UTF-8 bytes. Standard output is modelled as the
  list of the texts written, one element per call of Print, Println or Printf, in order.
\<close>

subsection \<open>Values of type float64\<close>

text \<open>
  A float64 is a finite number, a negative zero, an infinity or a NaN. The program never
  does arithmetic on one: it compares with zero, converts to int and formats with \<open>%f\<close>.
  \<open>Fin r\<close> stands for the finite value \<open>r\<close> (\<open>Fin 0\<close> is the positive zero).
\<close>

datatype float64 = Fin real | NegZero | PosInf | NegInf | NaN

text \<open>The Go comparison \<open>x != 0.0\<close>: the two zeros are equal, a NaN differs from everything.\<close>

fun ne_zero :: "float64 \<Rightarrow> bool" where
  "ne_zero (Fin r) = (r \<noteq> 0)"
| "ne_zero NegZero = False"
| "ne_zero PosInf = True"
| "ne_zero NegInf = True"
| "ne_zero NaN = True"

text \<open>The Go comparison \<open>x > 0\<close>: false for both zeros and for a NaN.\<close>

fun gt_zero :: "float64 \<Rightarrow> bool" where
  "gt_zero (Fin r) = (0 < r)"
| "gt_zero NegZero = False"
| "gt_zero PosInf = True"
| "gt_zero NegInf = False"
| "gt_zero NaN = False"

text \<open>The Go comparison \<open>x <= 0\<close>: true for both zeros, false for a NaN.\<close>

fun le_zero :: "float64 \<Rightarrow> bool" where
  "le_zero (Fin r) = (r \<le> 0)"
| "le_zero NegZero = True"
| "le_zero PosInf = False"
| "le_zero NegInf = True"
| "le_zero NaN = False"

text \<open>
  The conversion \<open>int(x)\<close> to a 64-bit int drops the fraction. For a value that does
  not fit, Go leaves the result to the implementation; the value taken here is the one
  of amd64, the least int64.
\<close>

definition trunc :: "real \<Rightarrow> int" where
  "trunc r = (if r < 0 then - \<lfloor>- r\<rfloor> else \<lfloor>r\<rfloor>)"

fun int_of_float64 :: "float64 \<Rightarrow> int" where
  "int_of_float64 (Fin r) =
     (if - (2 ^ 63) \<le> trunc r \<and> trunc r < 2 ^ 63 then trunc r else - (2 ^ 63))"
| "int_of_float64 NegZero = 0"
| "int_of_float64 PosInf = - (2 ^ 63)"
| "int_of_float64 NegInf = - (2 ^ 63)"
| "int_of_float64 NaN = - (2 ^ 63)"

subsection \<open>Formatting verbs of package fmt\<close>

definition digit :: "nat \<Rightarrow> char" where
  "digit n = ''0123456789'' ! n"

fun utoa :: "nat \<Rightarrow> string" where
  "utoa n = (if n < 10 then [digit n] else utoa (n div 10) @ [digit (n mod 10)])"

declare utoa.simps [simp del]

text \<open>The verb \<open>%d\<close>.\<close>

definition fmt_d :: "int \<Rightarrow> string" where
  "fmt_d i = (if i < 0 then ''-'' @ utoa (nat (- i)) else utoa (nat i))"

definition pad0 :: "nat \<Rightarrow> string \<Rightarrow> string" where
  "pad0 w s = replicate (w - length s) (CHR ''0'') @ s"

text \<open>
  Rounding of a non-negative number to the nearest integer, a tie going to the even
  neighbour: the rounding of strconv for the decimal expansion of a float64.
\<close>

definition round_half_even :: "real \<Rightarrow> nat" where
  "round_half_even y =
     (let f = \<lfloor>y\<rfloor>; d = y - of_int f
      in nat (if d < 1 / 2 then f
              else if 1 / 2 < d then f + 1
              else if even f then f else f + 1))"

text \<open>The verb \<open>%.<p>f\<close> for \<open>0 < p\<close>: sign, integer part, point, \<open>p\<close> decimals.\<close>

definition fixed :: "nat \<Rightarrow> nat \<Rightarrow> string" where
  "fixed p n = utoa (n div 10 ^ p) @ ''.'' @ pad0 p (utoa (n mod 10 ^ p))"

fun fmt_f :: "nat \<Rightarrow> float64 \<Rightarrow> string" where
  "fmt_f p (Fin r) =
     (if r < 0 then ''-'' else '''') @ fixed p (round_half_even (\<bar>r\<bar> * 10 ^ p))"
| "fmt_f p NegZero = ''-'' @ fixed p 0"
| "fmt_f p PosInf = ''+Inf''"
| "fmt_f p NegInf = ''-Inf''"
| "fmt_f p NaN = ''NaN''"

subsection \<open>The process: output written so far, and how the call ended\<close>

text \<open>
  A call either returns a value or ends the process: \<open>os.Exit\<close> with a code, or a
  run-time panic, which is kept apart from the codes that the program passes to
  \<open>os.Exit\<close>. Either way the text written before stays written.
\<close>

datatype halt = Exit int | Panic string

type_synonym 'a proc = "string list \<times> (halt + 'a)"

definition Return :: "'a \<Rightarrow> 'a proc" where
  "Return x = ([], Inr x)"

definition os_Exit :: "int \<Rightarrow> 'a proc" where
  "os_Exit code = ([], Inl (Exit code))"

definition panic :: "string \<Rightarrow> 'a proc" where
  "panic msg = ([], Inl (Panic msg))"

definition Print :: "string \<Rightarrow> unit proc" where
  "Print s = ([s], Inr ())"

definition Println :: "string \<Rightarrow> unit proc" where
  "Println s = ([s @ [CHR 0x0A]], Inr ())"

fun bind :: "'a proc \<Rightarrow> ('a \<Rightarrow> 'b proc) \<Rightarrow> 'b proc" where
  "bind (out, Inl h) f = (out, Inl h)"
| "bind (out, Inr x) f = (case f x of (out', r) \<Rightarrow> (out @ out', r))"

definition seq :: "unit proc \<Rightarrow> 'b proc \<Rightarrow> 'b proc" where
  "seq m n = bind m (\<lambda>_. n)"

definition stdout :: "'a proc \<Rightarrow> string" where
  "stdout p = concat (fst p)"

subsection \<open>Package time: instants, zones and the two layouts the program uses\<close>

text \<open>
  A location tells, for an instant, the abbreviation and the offset (seconds east of UTC)
  of the zone in effect. \<open>time.Unix\<close> gives an instant in the location \<open>Local\<close> of the
  host; \<open>In\<close> replaces the location. Instants are whole seconds here, as the program
  passes 0 nanoseconds. The calendar is the proleptic Gregorian one over all integers.
  Go computes it with 64-bit sums; the two agree as long as no sum overflows, for which
  it is enough that the instant and the offset are below \<open>2^61\<close> in absolute value.
\<close>

type_synonym Location = "int \<Rightarrow> string \<times> int"

record Time =
  sec :: int
  loc :: Location

definition FixedZone :: "string \<Rightarrow> int \<Rightarrow> Location" where
  "FixedZone name offset = (\<lambda>_. (name, offset))"

definition Unix :: "Location \<Rightarrow> int \<Rightarrow> Time" where
  "Unix local s = \<lparr>sec = s, loc = local\<rparr>"

definition In :: "Time \<Rightarrow> Location \<Rightarrow> Time" where
  "In t l = t\<lparr>loc := l\<rparr>"

text \<open>Year, month and day of the day that lies \<open>z\<close> days after 1970-01-01.\<close>

definition civil :: "int \<Rightarrow> int \<times> int \<times> int" where
  "civil z =
     (let z' = z + 719468;
          era = z' div 146097;
          doe = z' mod 146097;
          yoe = (doe - doe div 1460 + doe div 36524 - doe div 146096) div 365;
          doy = doe - (365 * yoe + yoe div 4 - yoe div 100);
          mp = (5 * doy + 2) div 153;
          d = doy - (153 * mp + 2) div 5 + 1;
          m = (if mp < 10 then mp + 3 else mp - 9);
          y = yoe + era * 400 + (if m \<le> 2 then 1 else 0)
      in (y, m, d))"

text \<open>\<open>appendInt\<close> of package time: a sign, then the digits padded with zeros to a width.\<close>

definition appendInt :: "int \<Rightarrow> nat \<Rightarrow> string" where
  "appendInt x width = (if x < 0 then ''-'' else []) @ pad0 width (utoa (nat \<bar>x\<bar>))"

text \<open>The quotient of Go's integer division, which rounds towards zero.\<close>

definition quo :: "int \<Rightarrow> int \<Rightarrow> int" where
  "quo a b = sgn a * sgn b * (\<bar>a\<bar> div \<bar>b\<bar>)"

text \<open>
  The layout element \<open>MST\<close>: the abbreviation of the zone, or the offset as \<open>-0700\<close>
  when the zone has no abbreviation.
\<close>

definition zone_abbrev :: "string \<Rightarrow> int \<Rightarrow> string" where
  "zone_abbrev name offset =
     (if name \<noteq> [] then name
      else let zone = quo offset 60
           in (if zone < 0 then ''-'' else ''+'')
              @ appendInt (\<bar>zone\<bar> div 60) 2 @ appendInt (\<bar>zone\<bar> mod 60) 2)"

text \<open>The wall clock of an instant: seconds since 1970-01-01 00:00:00 in its own zone.\<close>

definition wall :: "Time \<Rightarrow> int" where
  "wall t = sec t + snd (loc t (sec t))"

text \<open>\<open>Format\<close> with the layout \<open>2006-01-02\<close>.\<close>

definition Format_date :: "Time \<Rightarrow> string" where
  "Format_date t =
     (case civil (wall t div 86400) of
        (y, m, d) \<Rightarrow> appendInt y 4 @ ''-'' @ appendInt m 2 @ ''-'' @ appendInt d 2)"

text \<open>\<open>Format\<close> with the layout \<open>15:04:05\<close>.\<close>

definition Format_clock :: "Time \<Rightarrow> string" where
  "Format_clock t =
     (let s = wall t mod 86400
      in appendInt (s div 3600) 2 @ '':'' @ appendInt (s mod 3600 div 60) 2 @ '':''
         @ appendInt (s mod 60) 2)"

text \<open>\<open>Format\<close> with the layout \<open>15:04:05 MST\<close>.\<close>

definition Format_time :: "Time \<Rightarrow> string" where
  "Format_time t =
     Format_clock t @ '' '' @ zone_abbrev (fst (loc t (sec t))) (snd (loc t (sec t)))"

subsection \<open>Package strconv and package strings\<close>

text \<open>
  \<open>strconv.Atoi\<close> for a 64-bit int: an optional sign, then one or more decimal digits,
  and a value that fits. \<open>None\<close> stands for a result with \<open>err != nil\<close>; the program
  never looks at which error it is.
\<close>

definition isDigit :: "char \<Rightarrow> bool" where
  "isDigit c = (48 \<le> (of_char c :: nat) \<and> (of_char c :: nat) \<le> 57)"

definition digits_value :: "string \<Rightarrow> int" where
  "digits_value ds = foldl (\<lambda>n c. 10 * n + ((of_char c :: int) - 48)) 0 ds"

definition Atoi :: "string \<Rightarrow> int option" where
  "Atoi s =
     (let neg = (s \<noteq> [] \<and> hd s = CHR ''-'');
          ds = (if s \<noteq> [] \<and> (hd s = CHR ''-'' \<or> hd s = CHR ''+'') then tl s else s);
          n = digits_value ds
      in if ds = [] \<or> \<not> list_all isDigit ds then None
         else if neg then (if 2 ^ 63 < n then None else Some (- n))
         else (if 2 ^ 63 \<le> n then None else Some n))"

text \<open>
  \<open>strings.TrimSpace\<close> removes the white space of Unicode from both ends. On bytes,
  these are the UTF-8 encodings of the white-space runes: tab, line feed, vertical tab,
  form feed, carriage return, space, U+0085, U+00A0, U+1680, U+2000 to U+200A, U+2028,
  U+2029, U+202F, U+205F and U+3000.
\<close>

definition spaces :: "string list" where
  "spaces =
     [[CHR 0x09], [CHR 0x0A], [CHR 0x0B], [CHR 0x0C], [CHR 0x0D], [CHR 0x20],
      [CHR 0xC2, CHR 0x85], [CHR 0xC2, CHR 0xA0], [CHR 0xE1, CHR 0x9A, CHR 0x80],
      [CHR 0xE2, CHR 0x80, CHR 0x80], [CHR 0xE2, CHR 0x80, CHR 0x81],
      [CHR 0xE2, CHR 0x80, CHR 0x82], [CHR 0xE2, CHR 0x80, CHR 0x83],
      [CHR 0xE2, CHR 0x80, CHR 0x84], [CHR 0xE2, CHR 0x80, CHR 0x85],
      [CHR 0xE2, CHR 0x80, CHR 0x86], [CHR 0xE2, CHR 0x80, CHR 0x87],
      [CHR 0xE2, CHR 0x80, CHR 0x88], [CHR 0xE2, CHR 0x80, CHR 0x89],
      [CHR 0xE2, CHR 0x80, CHR 0x8A], [CHR 0xE2, CHR 0x80, CHR 0xA8],
      [CHR 0xE2, CHR 0x80, CHR 0xA9], [CHR 0xE2, CHR 0x80, CHR 0xAF],
      [CHR 0xE2, CHR 0x81, CHR 0x9F], [CHR 0xE3, CHR 0x80, CHR 0x80]]"

text \<open>The number of bytes of the pattern that starts \<open>s\<close>, 0 when there is none.\<close>

definition leading :: "string list \<Rightarrow> string \<Rightarrow> nat" where
  "leading pats s = (case find (\<lambda>p. prefix p s) pats of None \<Rightarrow> 0 | Some p \<Rightarrow> length p)"

function trim :: "string list \<Rightarrow> string \<Rightarrow> string" where
  "trim pats s =
     (if leading pats s = 0 \<or> s = [] then s else trim pats (drop (leading pats s) s))"
  by pat_completeness auto
termination
  by (relation "measure (\<lambda>(pats, s). length s)") auto

declare trim.simps [simp del]

definition TrimSpace :: "string \<Rightarrow> string" where
  "TrimSpace s = rev (trim (map rev spaces) (rev (trim spaces s)))"

subsection \<open>The data of the program\<close>

text \<open>Pin-pointed coordinate for a location.\<close>

record coordinate =
  Lat :: float64
  Lon :: float64

text \<open>Each matching location in a search.\<close>

record location =
  Coord :: coordinate
  Name :: string
  FullName :: string
  CompactName :: string
  Country :: string

record locationSearchResult =
  Message :: string
  Cod :: string
  Count :: int
  Lists :: "location list"

record weatherCondition =
  ID :: int
  Main :: string
  Description :: string
  Icon :: string

record forecast =
  f_Dt :: int
  f_Temp :: float64
  f_Precipitation :: float64

record rainInfo =
  OneH :: float64

record currentWeather =
  Dt :: int
  Sunrise :: int
  Sunset :: int
  Temp :: float64
  FeelsLike :: float64
  Pressure :: int
  Humidity :: int
  DewPoint :: float64
  UVI :: float64
  Clouds :: int
  Visibility :: int
  WindSpeed :: float64
  WindDeg :: int
  WindGust :: float64
  Weather :: "weatherCondition list"

record minutelyForecast =
  m_Dt :: int
  m_Precipitation :: float64

record hourlyForecast =
  h_Dt :: int
  h_Temp :: float64
  h_FeelsLike :: float64
  h_Pressure :: int
  h_Humidity :: int
  h_DewPoint :: float64
  h_UVI :: float64
  h_Clouds :: int
  h_Visibility :: int
  h_WindSpeed :: float64
  h_WindDeg :: int
  h_WindGust :: float64
  h_Weather :: "weatherCondition list"
  h_Pop :: float64
  h_Rain :: "rainInfo option"

record dailyForecast =
  d_Dt :: int
  d_Sunrise :: int
  d_Sunset :: int
  d_TempMax :: float64
  d_TempMin :: float64
  d_Pressure :: int
  d_Humidity :: int
  d_WindSpeed :: float64
  d_WindDeg :: int
  d_WindGust :: float64
  d_Weather :: "weatherCondition list"
  d_Clouds :: int
  d_Precipitation :: float64
  d_Pop :: float64
  d_UVI :: float64
  d_Forecast :: "forecast list"

record weatherData =
  w_Lat :: float64
  w_Lon :: float64
  Timezone :: string
  TimezoneOffset :: float64
  Current :: currentWeather
  Minutely :: "minutelyForecast list"
  Hourly :: "hourlyForecast list"
  Daily :: "dailyForecast list"

record IPInfo =
  IP :: string
  ip_Country :: string
  CountryCode :: string
  Region :: string
  ZipCode :: string
  City :: string
  StateCode :: string
  Longitude :: float64
  Latitude :: float64
  ISP :: string
  ISPASN :: int
  GDPR :: bool
  Protected :: bool

definition URL :: string where
  "URL = ''https://app.owm.io/app''"

definition DEVICE_ID :: string where
  "DEVICE_ID = ''e13401912dbaf7cc''"

definition APP_ID :: string where
  "APP_ID = ''e0c56f6c3cee94d1a83f36043ff1ce5b''"

definition TOKEN :: string where
  "TOKEN = DEVICE_ID @ '':APA91bGAmF46L0bGb2jVYVfVKNpWePUqWdgoo4hz8_LLkfECQ8qw8JdcA-8hsJ6WSgjfEY5CvgjNoYMYF8PLvGlJ9GFM2ERKnKWjBR_Hq2tjsuZABJ_io3c''"

text \<open>
  The map from icon codes to symbols, as the list of its entries in the order of the
  source. Each symbol is given by its UTF-8 bytes.
\<close>

definition weatherIconEmojis :: "(string \<times> string) list" where
  "weatherIconEmojis =
     [(''01d'', [CHR 0xE2, CHR 0x98, CHR 0x80, CHR 0xEF, CHR 0xB8, CHR 0x8F]),
      (''01n'', [CHR 0xF0, CHR 0x9F, CHR 0x8C, CHR 0x99]),
      (''02d'', [CHR 0xF0, CHR 0x9F, CHR 0x8C, CHR 0xA4, CHR 0xEF, CHR 0xB8, CHR 0x8F]),
      (''02n'', [CHR 0xF0, CHR 0x9F, CHR 0x8C, CHR 0xA5, CHR 0xEF, CHR 0xB8, CHR 0x8F]),
      (''03d'', [CHR 0xF0, CHR 0x9F, CHR 0x8C, CHR 0xA5, CHR 0xEF, CHR 0xB8, CHR 0x8F]),
      (''03n'', [CHR 0xE2, CHR 0x98, CHR 0x81, CHR 0xEF, CHR 0xB8, CHR 0x8F]),
      (''04d'', [CHR 0xE2, CHR 0x98, CHR 0x81, CHR 0xEF, CHR 0xB8, CHR 0x8F]),
      (''04n'', [CHR 0xE2, CHR 0x98, CHR 0x81, CHR 0xEF, CHR 0xB8, CHR 0x8F]),
      (''09d'', [CHR 0xF0, CHR 0x9F, CHR 0x8C, CHR 0xA6, CHR 0xEF, CHR 0xB8, CHR 0x8F]),
      (''09n'', [CHR 0xF0, CHR 0x9F, CHR 0x8C, CHR 0xA7, CHR 0xEF, CHR 0xB8, CHR 0x8F]),
      (''10d'', [CHR 0xF0, CHR 0x9F, CHR 0x8C, CHR 0xA6, CHR 0xEF, CHR 0xB8, CHR 0x8F]),
      (''10n'', [CHR 0xF0, CHR 0x9F, CHR 0x8C, CHR 0xA7, CHR 0xEF, CHR 0xB8, CHR 0x8F]),
      (''11d'', [CHR 0xE2, CHR 0x9B, CHR 0x88, CHR 0xEF, CHR 0xB8, CHR 0x8F]),
      (''11n'', [CHR 0xE2, CHR 0x9B, CHR 0x88, CHR 0xEF, CHR 0xB8, CHR 0x8F]),
      (''13d'', [CHR 0xF0, CHR 0x9F, CHR 0x8C, CHR 0xA8, CHR 0xEF, CHR 0xB8, CHR 0x8F]),
      (''13n'', [CHR 0xF0, CHR 0x9F, CHR 0x8C, CHR 0xA8, CHR 0xEF, CHR 0xB8, CHR 0x8F]),
      (''50d'', [CHR 0xF0, CHR 0x9F, CHR 0x8C, CHR 0xAB, CHR 0xEF, CHR 0xB8, CHR 0x8F]),
      (''50n'', [CHR 0xF0, CHR 0x9F, CHR 0x8C, CHR 0xAB, CHR 0xEF, CHR 0xB8, CHR 0x8F])]"

text \<open>Reading a Go map of strings: a key that is absent gives the empty string.\<close>

definition index_map :: "(string \<times> string) list \<Rightarrow> string \<Rightarrow> string" where
  "index_map m k = (case map_of m k of None \<Rightarrow> [] | Some v \<Rightarrow> v)"

subsection \<open>What the program reads from outside\<close>

text \<open>
  One GET request ends in one of three ways: the request cannot be built, it cannot be
  sent, or a response arrives. A response has a status code, and reading its body either
  fails or gives the bytes. Errors are carried as the text that \<open>Println\<close> shows.
\<close>

datatype http_outcome =
    NewRequestError string
  | DoError string
  | Response int "string + string"

text \<open>
  The world of one run: the network, the three uses of \<open>json.Unmarshal\<close> (an error
  text or the decoded value), the outcome of \<open>ReadString\<close> on standard input, and the
  local time zone of the host.
\<close>

record world =
  http :: "string \<Rightarrow> http_outcome"
  Unmarshal_locationSearchResult :: "string \<Rightarrow> string + locationSearchResult"
  Unmarshal_weatherData :: "string \<Rightarrow> string + weatherData"
  Unmarshal_IPInfo :: "string \<Rightarrow> string + IPInfo"
  ReadString :: "string + string"
  Local :: Location

text \<open>The values of the command-line flags after \<open>flag.Parse\<close>.\<close>

record flags =
  flag_auto :: bool
  flag_search :: string
  flag_lat :: float64
  flag_lon :: float64

subsection \<open>The functions of main.go\<close>

definition nl :: string where
  "nl = [CHR 0x0A]"

definition degree :: string where
  "degree = [CHR 0xC2, CHR 0xB0]"

fun seqs :: "unit proc list \<Rightarrow> unit proc" where
  "seqs [] = Return ()"
| "seqs (m # ms) = seq m (seqs ms)"

definition fetch :: "world \<Rightarrow> string \<Rightarrow> string proc" where
  "fetch W url =
     (case http W url of
        NewRequestError err \<Rightarrow>
          seq (Println ''Failed to create a new request.'') (seq (Println err) (os_Exit 1))
      | DoError err \<Rightarrow>
          seq (Println (''Failed to send request to '' @ URL)) (seq (Println err) (os_Exit 2))
      | Response status (Inl err) \<Rightarrow>
          seq (Println ''Failed to read response body'') (seq (Println err) (os_Exit 3))
      | Response status (Inr body) \<Rightarrow> Return body)"

text \<open>The three addresses requested; the first two are the results of \<open>Sprintf\<close>.\<close>

definition find_URL :: "string \<Rightarrow> string" where
  "find_URL l = URL @ ''/1.1/find/?q='' @ l @ ''&appid='' @ APP_ID @ ''&deviceid='' @ DEVICE_ID"

definition weather_URL :: "coordinate \<Rightarrow> string" where
  "weather_URL c =
     (let UNIT = ''metric''
      in URL @ ''/1.0/weather/?lat='' @ fmt_f 6 (Lat c) @ ''&lon='' @ fmt_f 6 (Lon c)
         @ ''&units='' @ UNIT @ ''&appid='' @ APP_ID @ ''&deviceid='' @ DEVICE_ID
         @ ''&token='' @ TOKEN)"

definition ipinfo_URL :: string where
  "ipinfo_URL = ''https://web-api.nordvpn.com/v1/ips/info''"

definition findCoordinate :: "world \<Rightarrow> string \<Rightarrow> locationSearchResult proc" where
  "findCoordinate W l =
     seq (Println (''[@] Searching for '' @ l))
       (let TARGET_URL = find_URL l
        in bind (fetch W TARGET_URL) (\<lambda>body.
             case Unmarshal_locationSearchResult W body of
               Inl err \<Rightarrow>
                 seq (Println ''Failed to marshal response to JSON'')
                   (seq (Println err) (seq (Println body) (os_Exit 4)))
             | Inr parsedResponse \<Rightarrow> Return parsedResponse))"

fun print_Lists :: "nat \<Rightarrow> location list \<Rightarrow> unit proc" where
  "print_Lists index [] = Return ()"
| "print_Lists index (value # rest) =
     seqs [Print (''---------------['' @ fmt_d (int index + 1) @ '']----------------'' @ nl),
           Println (''Country: '' @ Country value),
           Println (''Location: '' @ CompactName value),
           Print (''Latitude: '' @ fmt_f 6 (Lat (Coord value)) @ nl),
           Print (''Longitude: '' @ fmt_f 6 (Lon (Coord value)) @ nl @ nl),
           print_Lists (Suc index) rest]"

definition print_locationSearchResult :: "locationSearchResult \<Rightarrow> unit proc" where
  "print_locationSearchResult l =
     seq (Print (''Total available locations: '' @ fmt_d (Count l) @ nl))
       (print_Lists 0 (Lists l))"

definition findWeather :: "world \<Rightarrow> coordinate \<Rightarrow> weatherData proc" where
  "findWeather W c =
     seq (Println ''[@] Searching for weather'')
       (let TARGET_URL = weather_URL c
        in bind (fetch W TARGET_URL) (\<lambda>body.
             case Unmarshal_weatherData W body of
               Inl err \<Rightarrow>
                 seq (Println ''Failed to marshal response to JSON'')
                   (seq (Println err) (seq (Println body) (os_Exit 4)))
             | Inr parsedResponse \<Rightarrow> Return parsedResponse))"

text \<open>The element 0 of a slice; on an empty slice the run-time system panics.\<close>

definition index0 :: "'a list \<Rightarrow> 'a proc" where
  "index0 xs =
     (case xs of
        [] \<Rightarrow> panic ''runtime error: index out of range [0] with length 0''
      | x # _ \<Rightarrow> Return x)"

definition print_weatherData :: "world \<Rightarrow> weatherData \<Rightarrow> unit proc" where
  "print_weatherData W w =
     (let location = FixedZone (Timezone w) (int_of_float64 (TimezoneOffset w));
          current = Current w;
          dtTime = In (Unix (Local W) (Dt current)) location;
          sunriseTime = In (Unix (Local W) (Sunrise current)) location;
          sunsetTime = In (Unix (Local W) (Sunset current)) location
      in seqs
        [Print (nl @ ''Location: '' @ Timezone w @ '' (Lat: '' @ fmt_f 4 (w_Lat w)
                @ '', Lon: '' @ fmt_f 4 (w_Lon w) @ '')'' @ nl),
         Print (''Timezone Offset: '' @ fmt_d (int_of_float64 (TimezoneOffset w))
                @ '' seconds'' @ nl @ nl),
         bind (index0 (Weather current)) (\<lambda>c.
           Print (index_map weatherIconEmojis (Icon c) @ ''  Current Weather: '' @ nl)),
         Print (''Time:                '' @ Format_date dtTime @ '' '' @ Format_time dtTime @ nl),
         Print (''Sunrise:             '' @ Format_time sunriseTime @ nl),
         Print (''Sunset:              '' @ Format_time sunsetTime @ nl),
         Print (''Temperature:         '' @ fmt_f 2 (Temp current) @ degree @ ''C'' @ nl),
         Print (''Feels Like:          '' @ fmt_f 2 (FeelsLike current) @ degree @ ''C'' @ nl),
         Print (''Pressure:            '' @ fmt_d (Pressure current) @ '' hPa'' @ nl),
         Print (''Humidity:            '' @ fmt_d (Humidity current) @ ''%'' @ nl),
         Print (''Dew Point:           '' @ fmt_f 2 (DewPoint current) @ degree @ ''C'' @ nl),
         Print (''UV Index:            '' @ fmt_f 2 (UVI current) @ nl),
         Print (''Clouds:              '' @ fmt_d (Clouds current) @ ''%'' @ nl),
         Print (''Visibility:          '' @ fmt_d (Visibility current) @ '' m'' @ nl),
         Print (''Wind Speed:          '' @ fmt_f 2 (WindSpeed current) @ '' m/s'' @ nl),
         Print (''Wind Degrees:        '' @ fmt_d (WindDeg current) @ degree @ nl),
         (if gt_zero (WindGust current)
          then Print (''Wind Gust:           '' @ fmt_f 2 (WindGust current) @ '' m/s'' @ nl)
          else Return ()),
         Println ''-----------------------''])"

definition fetchUserCoordinates :: "world \<Rightarrow> coordinate proc" where
  "fetchUserCoordinates W =
     seq (Println ''[@] Fetching your coordinates'')
       (bind (fetch W ipinfo_URL) (\<lambda>body.
          case Unmarshal_IPInfo W body of
            Inl err \<Rightarrow> seq (Println ''Failed to parse IP info'') (seq (Println err) (os_Exit 10))
          | Inr parsedResponse \<Rightarrow>
              Return \<lparr>Lat = Latitude parsedResponse, Lon = Longitude parsedResponse\<rparr>))"

text \<open>
  \<open>flag.Usage\<close> as main sets it: one line on standard output. The defaults of the flags
  go to standard error, which is not part of the model.
\<close>

definition Usage :: "unit proc" where
  "Usage =
     Print ([CHR 0xF0, CHR 0x9F, CHR 0x8C, CHR 0xA4, CHR 0xEF, CHR 0xB8, CHR 0x8F]
            @ ''  weather: Know the weather from your command-line'' @ nl)"

text \<open>
  Lines 350 to 356 of main: the text read is parsed and checked against the list, and the
  coordinate of the chosen entry is the result.
\<close>

definition chosen :: "location list \<Rightarrow> string \<Rightarrow> coordinate proc" where
  "chosen locs text =
     (case Atoi text of
        None \<Rightarrow> seq (Println ''Provided index is invalid or out of bounds.'') (os_Exit 8)
      | Some chosenIndex \<Rightarrow>
          if chosenIndex > int (length locs) \<or> chosenIndex \<le> 0
          then seq (Println ''Provided index is invalid or out of bounds.'') (os_Exit 8)
          else Return (Coord (locs ! nat (chosenIndex - 1))))"

definition main :: "world \<Rightarrow> flags \<Rightarrow> unit proc" where
  "main W F =
     (if flag_auto F then
        bind (fetchUserCoordinates W) (\<lambda>c. bind (findWeather W c) (print_weatherData W))
      else if flag_search F \<noteq> [] then
        bind (findCoordinate W (flag_search F)) (\<lambda>searchedLocations.
          seq (print_locationSearchResult searchedLocations)
            (seq (Print (nl @ ''Choose searched index: ''))
               (case ReadString W of
                  Inl err \<Rightarrow> seq (Println ''Failed to read from stdin'') (seq (Println err) (os_Exit 7))
                | Inr text \<Rightarrow>
                    bind (chosen (Lists searchedLocations) (TrimSpace text)) (\<lambda>c.
                      bind (findWeather W c) (print_weatherData W)))))
      else if ne_zero (flag_lat F) \<and> ne_zero (flag_lon F) then
        (let newCoordinate = \<lparr>Lat = flag_lat F, Lon = flag_lon F\<rparr>
         in bind (findWeather W newCoordinate) (print_weatherData W))
      else Usage)"

subsection \<open>Notions of the specification\<close>

text \<open>The texts written that start the way the wind gust field does.\<close>

definition wind_gust_lines :: "string list \<Rightarrow> string list" where
  "wind_gust_lines out = filter (prefix ''Wind Gust:'') out"

text \<open>An instant shown in UTC, whatever the host.\<close>

definition UTC :: "int \<Rightarrow> Time" where
  "UTC s = \<lparr>sec = s, loc = FixedZone ''UTC'' 0\<rparr>"

text \<open>
  The failure classes that the specification names, and the class of the first failure
  that a run meets when it follows the control flow of the specification: the intent
  chooses how the coordinate is found (IP Geolocator, Location Search and Selection, or
  the coordinate given), then Weather Fetch follows. \<open>None\<close>: no failure of these classes.
\<close>

datatype failure_class =
  RequestConstruction | NetworkSend | BodyRead | JSONDecode | InvalidSelection | StdinRead

definition spec_transport :: "world \<Rightarrow> string \<Rightarrow> failure_class + string" where
  "spec_transport W url =
     (case http W url of
        NewRequestError _ \<Rightarrow> Inl RequestConstruction
      | DoError _ \<Rightarrow> Inl NetworkSend
      | Response _ (Inl _) \<Rightarrow> Inl BodyRead
      | Response _ (Inr body) \<Rightarrow> Inr body)"

definition spec_decoded :: "world \<Rightarrow> string \<Rightarrow> (string \<Rightarrow> string + 'a) \<Rightarrow> failure_class + 'a" where
  "spec_decoded W url decode =
     (case spec_transport W url of
        Inl k \<Rightarrow> Inl k
      | Inr body \<Rightarrow> (case decode body of Inl _ \<Rightarrow> Inl JSONDecode | Inr v \<Rightarrow> Inr v))"

definition spec_weather_failure :: "world \<Rightarrow> coordinate \<Rightarrow> failure_class option" where
  "spec_weather_failure W c =
     (case spec_decoded W (weather_URL c) (Unmarshal_weatherData W) of
        Inl k \<Rightarrow> Some k | Inr _ \<Rightarrow> None)"

definition spec_select :: "location list \<Rightarrow> string \<Rightarrow> failure_class + coordinate" where
  "spec_select candidates text =
     (case Atoi text of
        None \<Rightarrow> Inl InvalidSelection
      | Some chosenIndex \<Rightarrow>
          if chosenIndex \<le> 0 \<or> chosenIndex > int (length candidates) then Inl InvalidSelection
          else Inr (Coord (candidates ! nat (chosenIndex - 1))))"

definition spec_failure :: "world \<Rightarrow> flags \<Rightarrow> failure_class option" where
  "spec_failure W F =
     (if flag_auto F then
        (case spec_decoded W ipinfo_URL (Unmarshal_IPInfo W) of
           Inl k \<Rightarrow> Some k
         | Inr info \<Rightarrow> spec_weather_failure W \<lparr>Lat = Latitude info, Lon = Longitude info\<rparr>)
      else if flag_search F \<noteq> [] then
        (case spec_decoded W (find_URL (flag_search F)) (Unmarshal_locationSearchResult W) of
           Inl k \<Rightarrow> Some k
         | Inr result \<Rightarrow>
             (case ReadString W of
                Inl _ \<Rightarrow> Some StdinRead
              | Inr text \<Rightarrow>
                  (case spec_select (Lists result) (TrimSpace text) of
                     Inl k \<Rightarrow> Some k
                   | Inr c \<Rightarrow> spec_weather_failure W c)))
      else if ne_zero (flag_lat F) \<and> ne_zero (flag_lon F) then
        spec_weather_failure W \<lparr>Lat = flag_lat F, Lon = flag_lon F\<rparr>
      else None)"

text \<open>The exit codes that the program uses for each class.\<close>

fun exit_codes :: "failure_class \<Rightarrow> int list" where
  "exit_codes RequestConstruction = [1]"
| "exit_codes NetworkSend = [2]"
| "exit_codes BodyRead = [3]"
| "exit_codes JSONDecode = [4, 10]"
| "exit_codes InvalidSelection = [8]"
| "exit_codes StdinRead = [7]"

subsection \<open>Concrete inputs\<close>

text \<open>Three candidates of a search, and a snapshot with a gust of 3.5 m/s.\<close>

definition example_locations :: "location list" where
  "example_locations =
     [\<lparr>Coord = \<lparr>Lat = Fin 48.8534, Lon = Fin 2.3488\<rparr>, Name = ''Paris'',
       FullName = ''Paris, FR'', CompactName = ''Paris, FR'', Country = ''FR''\<rparr>,
      \<lparr>Coord = \<lparr>Lat = Fin 33.6609, Lon = Fin (-95.5555)\<rparr>, Name = ''Paris'',
       FullName = ''Paris, US'', CompactName = ''Paris, US'', Country = ''US''\<rparr>,
      \<lparr>Coord = \<lparr>Lat = Fin 36.302, Lon = Fin (-88.3267)\<rparr>, Name = ''Paris'',
       FullName = ''Paris, TN, US'', CompactName = ''Paris, US'', Country = ''US''\<rparr>]"

definition example_current :: currentWeather where
  "example_current =
     \<lparr>Dt = 1700000000, Sunrise = 1699950000, Sunset = 1699990000, Temp = Fin 18.5,
      FeelsLike = Fin 17, Pressure = 1013, Humidity = 40, DewPoint = Fin 3, UVI = Fin 0,
      Clouds = 20, Visibility = 10000, WindSpeed = Fin 2.25, WindDeg = 180,
      WindGust = Fin 3.5,
      Weather = [\<lparr>ID = 801, Main = ''Clouds'', Description = ''few clouds'', Icon = ''02d''\<rparr>]\<rparr>"

definition example_snapshot :: weatherData where
  "example_snapshot =
     \<lparr>w_Lat = Fin 48.8534, w_Lon = Fin 2.3488, Timezone = ''Europe/Paris'',
      TimezoneOffset = Fin 3600, Current = example_current,
      Minutely = [], Hourly = [], Daily = []\<rparr>"

text \<open>
  A world in which every request is answered with status 200 and the body \<open>not json\<close>,
  no decoder accepts that body, and standard input holds the line \<open>2\<close>.
\<close>

definition example_world :: world where
  "example_world =
     \<lparr>http = (\<lambda>url. Response 200 (Inr ''not json'')),
      Unmarshal_locationSearchResult = (\<lambda>body. Inl ''invalid character''),
      Unmarshal_weatherData = (\<lambda>body. Inl ''invalid character''),
      Unmarshal_IPInfo = (\<lambda>body. Inl ''invalid character''),
      ReadString = Inr (''2'' @ [CHR 0x0A]),
      Local = (\<lambda>s. (''UTC'', 0))\<rparr>"

text \<open>
  The same world with a service that answers: the search gives the three candidates, the
  weather request gives the snapshot.
\<close>

definition example_service :: world where
  "example_service =
     example_world
       \<lparr>Unmarshal_locationSearchResult :=
          (\<lambda>body. Inr \<lparr>Message = ''accurate'', Cod = ''200'', Count = 3,
                          Lists = example_locations\<rparr>),
        Unmarshal_weatherData := (\<lambda>body. Inr example_snapshot)\<rparr>"

section \<open>Properties\<close>

subsection \<open>Laws of the process type\<close>

lemma bind_unfold:
  "bind p f =
     (case snd p of Inl h \<Rightarrow> (fst p, Inl h) | Inr x \<Rightarrow> (fst p @ fst (f x), snd (f x)))"
  by (cases p; cases "snd p") (auto split: prod.splits)

lemma seq_Print: "seq (Print s) p = (s # fst p, snd p)"
  by (cases p) (simp add: seq_def Print_def)

lemma seq_Println: "seq (Println s) p = ((s @ nl) # fst p, snd p)"
  by (cases p) (simp add: seq_def Println_def nl_def)

lemma seq_Return: "seq (Return ()) p = p"
  by (cases p) (simp add: seq_def Return_def)

lemma seq_bind: "seq (bind m f) p = bind m (\<lambda>x. seq (f x) p)"
  by (simp add: seq_def bind_unfold split: sum.splits)

lemma bind_Return: "bind (Return x) f = f x"
  by (cases "f x") (simp add: Return_def)

lemma bind_panic: "bind (panic msg) f = panic msg"
  by (simp add: panic_def)

lemma bind_os_Exit: "bind (os_Exit n) f = os_Exit n"
  by (simp add: os_Exit_def)

lemma fst_Return: "fst (Return x) = []"
  by (simp add: Return_def)

lemma snd_Return: "snd (Return x) = Inr x"
  by (simp add: Return_def)

lemma fst_Print: "fst (Print s) = [s]"
  by (simp add: Print_def)

lemma snd_Print: "snd (Print s) = Inr ()"
  by (simp add: Print_def)

lemma fst_panic: "fst (panic msg) = []"
  by (simp add: panic_def)

lemma snd_panic: "snd (panic msg) = Inl (Panic msg)"
  by (simp add: panic_def)

lemma snd_os_Exit: "snd (os_Exit n) = Inl (Exit n)"
  by (simp add: os_Exit_def)

lemma snd_bind:
  "snd (bind p f) = (case snd p of Inl h \<Rightarrow> Inl h | Inr x \<Rightarrow> snd (f x))"
  by (simp add: bind_unfold split: sum.splits)

lemma snd_seq: "snd (seq m p) = (case snd m of Inl h \<Rightarrow> Inl h | Inr _ \<Rightarrow> snd p)"
  by (simp add: seq_def snd_bind)

lemma snd_seq_Print: "snd (seq (Print s) p) = snd p"
  by (simp add: seq_Print)

lemma snd_seq_Println: "snd (seq (Println s) p) = snd p"
  by (simp add: seq_Println)

lemmas proc_simps =
  seq_Print seq_Println seq_Return seq_bind bind_Return bind_panic bind_os_Exit

lemmas print_unfold = print_weatherData_def Let_def proc_simps index0_def
  fst_Return snd_Return fst_Print snd_Print fst_panic snd_panic

subsection \<open>Transport\<close>

text \<open>
  C8. For every address: when a response arrives and its body can be read, fetch returns
  the whole body, whatever the status code; when the request cannot be built the process
  exits with code 1, when it cannot be sent with code 2, when the body cannot be read
  with code 3, after two lines of diagnosis each. These are the only ways for fetch to
  end: it returns exactly when a response with a readable body arrived.
\<close>

theorem fetch_outcomes:
  "(http W url = Response status (Inr body) \<longrightarrow> fetch W url = Return body)
   \<and> (http W url = NewRequestError err \<longrightarrow>
        fetch W url = ([''Failed to create a new request.'' @ nl, err @ nl], Inl (Exit 1)))
   \<and> (http W url = DoError err \<longrightarrow>
        fetch W url = ([''Failed to send request to '' @ URL @ nl, err @ nl], Inl (Exit 2)))
   \<and> (http W url = Response status (Inl err) \<longrightarrow>
        fetch W url = ([''Failed to read response body'' @ nl, err @ nl], Inl (Exit 3)))
   \<and> ((\<exists>b. snd (fetch W url) = Inr b) \<longleftrightarrow> (\<exists>st b. http W url = Response st (Inr b)))"
proof -
  have "(\<exists>b. snd (fetch W url) = Inr b) \<longleftrightarrow> (\<exists>st b. http W url = Response st (Inr b))"
    by (cases "http W url")
       (auto simp: fetch_def proc_simps snd_os_Exit snd_Return split: sum.splits)
  then show ?thesis
    by (simp add: fetch_def proc_simps os_Exit_def)
qed

text \<open>A body comes back with status 200 and with status 404; each failure has its code.\<close>

theorem fetch_outcomes_witness:
  "fetch example_world ipinfo_URL = Return ''not json''
   \<and> fetch (example_world\<lparr>http := (\<lambda>url. Response 404 (Inr ''Not Found''))\<rparr>) URL
       = Return ''Not Found''
   \<and> snd (fetch (example_world\<lparr>http := (\<lambda>url. NewRequestError ''invalid control character in URL'')\<rparr>) URL)
       = Inl (Exit 1)
   \<and> snd (fetch (example_world\<lparr>http := (\<lambda>url. DoError ''context deadline exceeded'')\<rparr>) URL)
       = Inl (Exit 2)
   \<and> snd (fetch (example_world\<lparr>http := (\<lambda>url. Response 200 (Inl ''unexpected EOF''))\<rparr>) URL)
       = Inl (Exit 3)"
  using fetch_outcomes
      [where W = example_world and url = ipinfo_URL and status = 200 and body = "''not json''"]
    fetch_outcomes
      [where W = "example_world\<lparr>http := (\<lambda>url. Response 404 (Inr ''Not Found''))\<rparr>"
         and url = URL and status = 404 and body = "''Not Found''"]
    fetch_outcomes
      [where W = "example_world\<lparr>http := (\<lambda>url. NewRequestError ''invalid control character in URL'')\<rparr>"
         and url = URL and err = "''invalid control character in URL''"]
    fetch_outcomes
      [where W = "example_world\<lparr>http := (\<lambda>url. DoError ''context deadline exceeded'')\<rparr>"
         and url = URL and err = "''context deadline exceeded''"]
    fetch_outcomes
      [where W = "example_world\<lparr>http := (\<lambda>url. Response 200 (Inl ''unexpected EOF''))\<rparr>"
         and url = URL and status = 200 and err = "''unexpected EOF''"]
  by (simp add: example_world_def)

subsection \<open>How each function ends\<close>

lemma snd_fetch:
  "snd (fetch W url) =
     (case spec_transport W url of
        Inl RequestConstruction \<Rightarrow> Inl (Exit 1)
      | Inl NetworkSend \<Rightarrow> Inl (Exit 2)
      | Inl BodyRead \<Rightarrow> Inl (Exit 3)
      | Inl _ \<Rightarrow> Inl (Exit 0)
      | Inr body \<Rightarrow> Inr body)"
  by (simp add: fetch_def spec_transport_def snd_seq_Println snd_os_Exit snd_Return
      split: http_outcome.splits sum.splits)

lemma spec_transport_classes:
  "spec_transport W url = Inl c \<Longrightarrow> c = RequestConstruction \<or> c = NetworkSend \<or> c = BodyRead"
  by (auto simp: spec_transport_def split: http_outcome.splits sum.splits)

lemma snd_findWeather:
  "snd (findWeather W c) =
     (case spec_decoded W (weather_URL c) (Unmarshal_weatherData W) of
        Inl RequestConstruction \<Rightarrow> Inl (Exit 1)
      | Inl NetworkSend \<Rightarrow> Inl (Exit 2)
      | Inl BodyRead \<Rightarrow> Inl (Exit 3)
      | Inl _ \<Rightarrow> Inl (Exit 4)
      | Inr w \<Rightarrow> Inr w)"
  using spec_transport_classes [of W "weather_URL c"]
  by (auto simp: findWeather_def spec_decoded_def snd_seq_Println snd_bind snd_fetch snd_os_Exit
      snd_Return Let_def split: sum.splits failure_class.splits)

lemma snd_findCoordinate:
  "snd (findCoordinate W l) =
     (case spec_decoded W (find_URL l) (Unmarshal_locationSearchResult W) of
        Inl RequestConstruction \<Rightarrow> Inl (Exit 1)
      | Inl NetworkSend \<Rightarrow> Inl (Exit 2)
      | Inl BodyRead \<Rightarrow> Inl (Exit 3)
      | Inl _ \<Rightarrow> Inl (Exit 4)
      | Inr r \<Rightarrow> Inr r)"
  using spec_transport_classes [of W "find_URL l"]
  by (auto simp: findCoordinate_def spec_decoded_def snd_seq_Println snd_bind snd_fetch snd_os_Exit
      snd_Return Let_def split: sum.splits failure_class.splits)

lemma snd_fetchUserCoordinates:
  "snd (fetchUserCoordinates W) =
     (case spec_decoded W ipinfo_URL (Unmarshal_IPInfo W) of
        Inl RequestConstruction \<Rightarrow> Inl (Exit 1)
      | Inl NetworkSend \<Rightarrow> Inl (Exit 2)
      | Inl BodyRead \<Rightarrow> Inl (Exit 3)
      | Inl _ \<Rightarrow> Inl (Exit 10)
      | Inr info \<Rightarrow> Inr \<lparr>Lat = Latitude info, Lon = Longitude info\<rparr>)"
  using spec_transport_classes [of W ipinfo_URL]
  by (auto simp: fetchUserCoordinates_def spec_decoded_def snd_seq_Println snd_bind snd_fetch
      snd_os_Exit snd_Return split: sum.splits failure_class.splits)

lemma snd_chosen:
  "snd (chosen locs text) =
     (case spec_select locs text of Inl _ \<Rightarrow> Inl (Exit 8) | Inr c \<Rightarrow> Inr c)"
  by (auto simp: chosen_def spec_select_def snd_seq_Println snd_os_Exit snd_Return
      split: option.splits)

lemma snd_print_Lists: "snd (print_Lists index ls) = Inr ()"
  by (induction ls arbitrary: index)
     (simp_all add: snd_Return seq_Print seq_Println seq_Return snd_seq)

lemma snd_print_locationSearchResult: "snd (print_locationSearchResult l) = Inr ()"
  by (simp add: print_locationSearchResult_def snd_seq_Print snd_print_Lists)

lemma snd_print_weatherData:
  "snd (print_weatherData W w) \<noteq> Inl (Exit n)"
  by (cases "Weather (Current w)")
     (simp_all add: print_weatherData_def Let_def proc_simps index0_def snd_Return panic_def)

lemma exit_codes_disjoint: "c \<noteq> c' \<Longrightarrow> set (exit_codes c) \<inter> set (exit_codes c') = {}"
  by (cases c; cases c') simp_all

lemma spec_decoded_classes:
  "spec_decoded W url d = Inl k \<Longrightarrow>
   k = RequestConstruction \<or> k = NetworkSend \<or> k = BodyRead \<or> k = JSONDecode"
  using spec_transport_classes [of W url k]
  by (auto simp: spec_decoded_def split: sum.splits)

lemma findWeather_fail:
  "spec_decoded W (weather_URL c) (Unmarshal_weatherData W) = Inl k \<Longrightarrow>
   \<exists>n \<in> set (exit_codes k). snd (findWeather W c) = Inl (Exit n)"
  using spec_decoded_classes [of W "weather_URL c" "Unmarshal_weatherData W" k]
  by (auto simp: snd_findWeather)

lemma findCoordinate_fail:
  "spec_decoded W (find_URL l) (Unmarshal_locationSearchResult W) = Inl k \<Longrightarrow>
   \<exists>n \<in> set (exit_codes k). snd (findCoordinate W l) = Inl (Exit n)"
  using spec_decoded_classes [of W "find_URL l" "Unmarshal_locationSearchResult W" k]
  by (auto simp: snd_findCoordinate)

lemma fetchUserCoordinates_fail:
  "spec_decoded W ipinfo_URL (Unmarshal_IPInfo W) = Inl k \<Longrightarrow>
   \<exists>n \<in> set (exit_codes k). snd (fetchUserCoordinates W) = Inl (Exit n)"
  using spec_decoded_classes [of W ipinfo_URL "Unmarshal_IPInfo W" k]
  by (auto simp: snd_fetchUserCoordinates)

lemma weather_report_fail:
  "spec_weather_failure W c = Some k \<Longrightarrow>
   \<exists>n \<in> set (exit_codes k). snd (bind (findWeather W c) (print_weatherData W)) = Inl (Exit n)"
  using findWeather_fail [of W c k]
  by (auto simp: spec_weather_failure_def snd_bind split: sum.splits)

lemma weather_report_no_fail:
  "spec_weather_failure W c = None \<Longrightarrow>
   snd (bind (findWeather W c) (print_weatherData W)) \<noteq> Inl (Exit n)"
  by (auto simp: spec_weather_failure_def snd_bind snd_findWeather snd_print_weatherData
      split: sum.splits)

lemma snd_main_auto:
  "flag_auto F \<Longrightarrow>
   snd (main W F) =
     (case snd (fetchUserCoordinates W) of
        Inl h \<Rightarrow> Inl h
      | Inr c \<Rightarrow> snd (bind (findWeather W c) (print_weatherData W)))"
  by (simp add: main_def snd_bind)

lemma snd_main_search:
  "\<not> flag_auto F \<Longrightarrow> flag_search F \<noteq> [] \<Longrightarrow>
   snd (main W F) =
     (case snd (findCoordinate W (flag_search F)) of
        Inl h \<Rightarrow> Inl h
      | Inr r \<Rightarrow>
         (case ReadString W of
            Inl _ \<Rightarrow> Inl (Exit 7)
          | Inr text \<Rightarrow>
              (case snd (chosen (Lists r) (TrimSpace text)) of
                 Inl h \<Rightarrow> Inl h
               | Inr c \<Rightarrow> snd (bind (findWeather W c) (print_weatherData W)))))"
  by (simp add: main_def snd_bind snd_seq snd_print_locationSearchResult Print_def
      Println_def snd_os_Exit split: sum.splits)

lemma main_fail:
  assumes "spec_failure W F = Some k"
  shows "\<exists>n \<in> set (exit_codes k). snd (main W F) = Inl (Exit n)"
proof (cases "flag_auto F")
  case True
  show ?thesis
  proof (cases "spec_decoded W ipinfo_URL (Unmarshal_IPInfo W)")
    case (Inl k')
    with assms True have "k' = k" by (simp add: spec_failure_def)
    with Inl fetchUserCoordinates_fail [of W k] True show ?thesis
      by (auto simp: snd_main_auto)
  next
    case (Inr info)
    with assms True
    have "spec_weather_failure W \<lparr>Lat = Latitude info, Lon = Longitude info\<rparr> = Some k"
      by (simp add: spec_failure_def)
    from weather_report_fail [OF this] Inr True show ?thesis
      by (simp add: snd_main_auto snd_fetchUserCoordinates)
  qed
next
  case False
  note not_auto = this
  show ?thesis
  proof (cases "flag_search F = []")
    case True
    with assms not_auto
    have "spec_weather_failure W \<lparr>Lat = flag_lat F, Lon = flag_lon F\<rparr> = Some k"
      and "ne_zero (flag_lat F) \<and> ne_zero (flag_lon F)"
      by (auto simp: spec_failure_def split: if_splits)
    with weather_report_fail [of W "\<lparr>Lat = flag_lat F, Lon = flag_lon F\<rparr>" k] True not_auto
    show ?thesis by (simp add: main_def)
  next
    case False
    show ?thesis
    proof (cases "spec_decoded W (find_URL (flag_search F)) (Unmarshal_locationSearchResult W)")
      case (Inl k')
      with assms not_auto False have "k' = k" by (simp add: spec_failure_def)
      with Inl findCoordinate_fail [of W "flag_search F" k] not_auto False show ?thesis
        by (auto simp: snd_main_search)
    next
      case (Inr r)
      then have r: "snd (findCoordinate W (flag_search F)) = Inr r"
        by (simp add: snd_findCoordinate)
      show ?thesis
      proof (cases "ReadString W")
        case (Inl err)
        with assms not_auto False Inr have "k = StdinRead" by (simp add: spec_failure_def)
        with Inl r not_auto False show ?thesis by (simp add: snd_main_search)
      next
        case (Inr line)
        note line = this
        show ?thesis
        proof (cases "spec_select (Lists r) (TrimSpace line)")
          case (Inl k')
          with assms not_auto False \<open>spec_decoded _ _ _ = Inr r\<close> line
          have "k = k'" by (simp add: spec_failure_def)
          moreover from Inl have "k' = InvalidSelection"
            by (auto simp: spec_select_def split: option.splits if_splits)
          ultimately show ?thesis using Inl line r not_auto False
            by (simp add: snd_main_search snd_chosen)
        next
          case (Inr c)
          with assms not_auto False \<open>spec_decoded _ _ _ = Inr r\<close> line
          have "spec_weather_failure W c = Some k" by (simp add: spec_failure_def)
          from weather_report_fail [OF this] Inr line r not_auto False show ?thesis
            by (simp add: snd_main_search snd_chosen)
        qed
      qed
    qed
  qed
qed

lemma main_no_fail:
  assumes "spec_failure W F = None"
  shows "snd (main W F) \<noteq> Inl (Exit n)"
proof (cases "flag_auto F")
  case True
  with assms obtain info
    where info: "spec_decoded W ipinfo_URL (Unmarshal_IPInfo W) = Inr info"
      and "spec_weather_failure W \<lparr>Lat = Latitude info, Lon = Longitude info\<rparr> = None"
    by (auto simp: spec_failure_def split: sum.splits)
  from weather_report_no_fail [OF this(2)] info True show ?thesis
    by (simp add: snd_main_auto snd_fetchUserCoordinates)
next
  case False
  note not_auto = this
  show ?thesis
  proof (cases "flag_search F = []")
    case True
    show ?thesis
    proof (cases "ne_zero (flag_lat F) \<and> ne_zero (flag_lon F)")
      case True
      with assms not_auto \<open>flag_search F = []\<close>
      have "spec_weather_failure W \<lparr>Lat = flag_lat F, Lon = flag_lon F\<rparr> = None"
        by (simp add: spec_failure_def)
      from weather_report_no_fail [OF this] True not_auto \<open>flag_search F = []\<close>
      show ?thesis by (simp add: main_def)
    next
      case False
      with not_auto True show ?thesis
        by (auto simp: main_def Usage_def Print_def)
    qed
  next
    case False
    with assms not_auto obtain r line c
      where r: "spec_decoded W (find_URL (flag_search F)) (Unmarshal_locationSearchResult W) = Inr r"
        and line: "ReadString W = Inr line"
        and c: "spec_select (Lists r) (TrimSpace line) = Inr c"
        and "spec_weather_failure W c = None"
      by (auto simp: spec_failure_def split: sum.splits)
    from weather_report_no_fail [OF this(4)] r line c not_auto False show ?thesis
      by (simp add: snd_main_search snd_findCoordinate snd_chosen)
  qed
qed

lemma weather_report_not_8:
  "snd (bind (findWeather W c) (print_weatherData W)) \<noteq> Inl (Exit 8)"
  by (auto simp: snd_bind snd_findWeather snd_print_weatherData
      split: sum.splits failure_class.splits)

subsection \<open>Selection of a candidate\<close>

text \<open>
  C1. For a search result with N candidates and the text of the chosen index, the
  selection returns a coordinate if and only if the text is an integer i with
  1 \<le> i \<le> N, and then it is the coordinate of candidate i - 1; in every other case
  (no integer, i \<le> 0, i > N) the process writes one line and exits with code 8. In
  main, after a search that gave a result and a line read from standard input, the
  process exits with code 8 exactly when the line, without the white space around it,
  is no such integer.
\<close>

theorem selection_by_index:
  "((\<exists>c. snd (chosen locs input) = Inr c)
      \<longleftrightarrow> (\<exists>i. Atoi input = Some i \<and> 1 \<le> i \<and> i \<le> int (length locs)))
   \<and> (\<forall>i. Atoi input = Some i \<and> 1 \<le> i \<and> i \<le> int (length locs)
          \<longrightarrow> chosen locs input = Return (Coord (locs ! nat (i - 1))))
   \<and> ((\<nexists>i. Atoi input = Some i \<and> 1 \<le> i \<and> i \<le> int (length locs))
          \<longrightarrow> chosen locs input
              = ([''Provided index is invalid or out of bounds.'' @ nl], Inl (Exit 8)))
   \<and> (\<not> flag_auto F \<and> flag_search F \<noteq> []
        \<and> snd (findCoordinate W (flag_search F)) = Inr r \<and> ReadString W = Inr line
        \<longrightarrow> (snd (main W F) = Inl (Exit 8)
              \<longleftrightarrow> (\<nexists>i. Atoi (TrimSpace line) = Some i \<and> 1 \<le> i
                        \<and> i \<le> int (length (Lists r)))))"
proof -
  have sel: "chosen ls t =
      (case Atoi t of
         None \<Rightarrow> ([''Provided index is invalid or out of bounds.'' @ nl], Inl (Exit 8))
       | Some i \<Rightarrow>
           if 1 \<le> i \<and> i \<le> int (length ls) then Return (Coord (ls ! nat (i - 1)))
           else ([''Provided index is invalid or out of bounds.'' @ nl], Inl (Exit 8)))"
    for ls t
    by (auto simp: chosen_def proc_simps os_Exit_def split: option.splits)
  have in_main: "snd (main W F) = Inl (Exit 8)
      \<longleftrightarrow> (\<nexists>i. Atoi (TrimSpace line) = Some i \<and> 1 \<le> i \<and> i \<le> int (length (Lists r)))"
    if "\<not> flag_auto F" "flag_search F \<noteq> []"
      "snd (findCoordinate W (flag_search F)) = Inr r" "ReadString W = Inr line"
    using that weather_report_not_8 [of W]
    by (auto simp: snd_main_search sel [of "Lists r"] Return_def split: option.splits)
  have "(\<exists>c. snd (chosen locs input) = Inr c)
      \<longleftrightarrow> (\<exists>i. Atoi input = Some i \<and> 1 \<le> i \<and> i \<le> int (length locs))"
    by (cases "Atoi input") (auto simp: sel [of locs] Return_def)
  moreover have "\<forall>i. Atoi input = Some i \<and> 1 \<le> i \<and> i \<le> int (length locs)
          \<longrightarrow> chosen locs input = Return (Coord (locs ! nat (i - 1)))"
    by (simp add: sel [of locs])
  moreover have "(\<nexists>i. Atoi input = Some i \<and> 1 \<le> i \<and> i \<le> int (length locs))
          \<longrightarrow> chosen locs input
              = ([''Provided index is invalid or out of bounds.'' @ nl], Inl (Exit 8))"
    by (cases "Atoi input") (auto simp: sel [of locs])
  ultimately show ?thesis using in_main by blast
qed

text \<open>
  With the three candidates, the text \<open>2\<close> selects the second one; \<open>0\<close>, \<open>4\<close> and
  \<open>two\<close> end the process with code 8. In the example service the line \<open>2\<close> does not
  lead to code 8; the line \<open>7\<close> does.
\<close>

theorem selection_by_index_witness:
  "chosen example_locations ''2'' = Return \<lparr>Lat = Fin 33.6609, Lon = Fin (-95.5555)\<rparr>
   \<and> snd (chosen example_locations ''0'') = Inl (Exit 8)
   \<and> snd (chosen example_locations ''4'') = Inl (Exit 8)
   \<and> snd (chosen example_locations ''two'') = Inl (Exit 8)
   \<and> snd (main example_service
           \<lparr>flag_auto = False, flag_search = ''Paris'', flag_lat = Fin 0, flag_lon = Fin 0\<rparr>)
       \<noteq> Inl (Exit 8)
   \<and> snd (main (example_service\<lparr>ReadString := Inr (''7'' @ nl)\<rparr>)
           \<lparr>flag_auto = False, flag_search = ''Paris'', flag_lat = Fin 0, flag_lon = Fin 0\<rparr>)
       = Inl (Exit 8)"
proof -
  have atoi: "Atoi ''2'' = Some 2" "Atoi ''0'' = Some 0" "Atoi ''4'' = Some 4"
    "Atoi ''7'' = Some 7" "Atoi ''two'' = None"
    by (simp_all add: Atoi_def isDigit_def digits_value_def)
  have len: "length example_locations = 3"
    and second: "Coord (example_locations ! 1) = \<lparr>Lat = Fin 33.6609, Lon = Fin (-95.5555)\<rparr>"
    by (simp_all add: example_locations_def)
  have trimmed: "TrimSpace (''2'' @ nl) = ''2''" "TrimSpace (''7'' @ nl) = ''7''"
    by (simp_all add: TrimSpace_def trim.simps leading_def spaces_def nl_def)
  have found: "snd (findCoordinate W ''Paris'')
      = Inr \<lparr>Message = ''accurate'', Cod = ''200'', Count = 3, Lists = example_locations\<rparr>"
    if "W = example_service \<or> W = example_service\<lparr>ReadString := Inr (''7'' @ nl)\<rparr>" for W
    using that
    by (auto simp: snd_findCoordinate spec_decoded_def spec_transport_def example_service_def
        example_world_def)
  have line: "ReadString example_service = Inr (''2'' @ nl)"
    by (simp add: example_service_def example_world_def nl_def)
  have "chosen example_locations ''2'' = Return \<lparr>Lat = Fin 33.6609, Lon = Fin (-95.5555)\<rparr>"
    using selection_by_index [where locs = example_locations and input = "''2''"] second
    by (simp add: atoi len)
  moreover have "snd (chosen example_locations ''0'') = Inl (Exit 8)"
    using selection_by_index [where locs = example_locations and input = "''0''"]
    by (simp add: atoi len)
  moreover have "snd (chosen example_locations ''4'') = Inl (Exit 8)"
    using selection_by_index [where locs = example_locations and input = "''4''"]
    by (simp add: atoi len)
  moreover have "snd (chosen example_locations ''two'') = Inl (Exit 8)"
    using selection_by_index [where locs = example_locations and input = "''two''"]
    by (simp add: atoi len)
  moreover have "snd (main example_service
           \<lparr>flag_auto = False, flag_search = ''Paris'', flag_lat = Fin 0, flag_lon = Fin 0\<rparr>)
       \<noteq> Inl (Exit 8)"
    using selection_by_index
      [where W = example_service and line = "''2'' @ nl"
         and F = "\<lparr>flag_auto = False, flag_search = ''Paris'', flag_lat = Fin 0, flag_lon = Fin 0\<rparr>"
         and r = "\<lparr>Message = ''accurate'', Cod = ''200'', Count = 3, Lists = example_locations\<rparr>"]
      found [of example_service] line trimmed atoi len
    by simp
  moreover have "snd (main (example_service\<lparr>ReadString := Inr (''7'' @ nl)\<rparr>)
           \<lparr>flag_auto = False, flag_search = ''Paris'', flag_lat = Fin 0, flag_lon = Fin 0\<rparr>)
       = Inl (Exit 8)"
    using selection_by_index
      [where W = "example_service\<lparr>ReadString := Inr (''7'' @ nl)\<rparr>" and line = "''7'' @ nl"
         and F = "\<lparr>flag_auto = False, flag_search = ''Paris'', flag_lat = Fin 0, flag_lon = Fin 0\<rparr>"
         and r = "\<lparr>Message = ''accurate'', Cod = ''200'', Count = 3, Lists = example_locations\<rparr>"]
      found [of "example_service\<lparr>ReadString := Inr (''7'' @ nl)\<rparr>"] trimmed atoi len
    by simp
  ultimately show ?thesis by blast
qed

text \<open>The text handed to the selection is the line read without the white space around it.\<close>

lemma TrimSpace_example: "TrimSpace ('' 2'' @ [CHR 0x0D, CHR 0x0A]) = ''2''"
  by (simp add: TrimSpace_def trim.simps leading_def spaces_def)

lemma TrimSpace_example2: "TrimSpace ([CHR 0xC2, CHR 0xA0] @ ''1 0'' @ [CHR 0xE2, CHR 0x80, CHR 0x83, CHR 0x0A]) = ''1 0''"
  by (simp add: TrimSpace_def trim.simps leading_def spaces_def)

subsection \<open>Exit codes\<close>

text \<open>
  C2, as the code has it. A run that meets a failure of one of the six classes ends at
  once with an exit code of that class: 1 for request construction, 2 for network send,
  3 for body read, 7 for a failed read of standard input, 8 for an invalid selection,
  and for JSON decode 4 when the search result or the weather snapshot does not decode
  and 10 when the IP information does not decode. A run that meets none of them does not
  end by \<open>os.Exit\<close>. No code belongs to two classes.
\<close>

theorem exit_code_by_failure_class:
  "(spec_failure W F = Some k \<longrightarrow> (\<exists>n \<in> set (exit_codes k). snd (main W F) = Inl (Exit n)))
   \<and> (spec_failure W F = None \<longrightarrow> snd (main W F) \<noteq> Inl (Exit n))
   \<and> (k \<noteq> k' \<longrightarrow> set (exit_codes k) \<inter> set (exit_codes k') = {})
   \<and> (spec_decoded W (find_URL l) (Unmarshal_locationSearchResult W) = Inl JSONDecode
        \<longrightarrow> snd (findCoordinate W l) = Inl (Exit 4))
   \<and> (spec_decoded W (weather_URL c) (Unmarshal_weatherData W) = Inl JSONDecode
        \<longrightarrow> snd (findWeather W c) = Inl (Exit 4))
   \<and> (spec_decoded W ipinfo_URL (Unmarshal_IPInfo W) = Inl JSONDecode
        \<longrightarrow> snd (fetchUserCoordinates W) = Inl (Exit 10))"
  using main_fail [of W F k] main_no_fail [of W F n] exit_codes_disjoint [of k k']
  by (simp add: snd_findCoordinate snd_findWeather snd_fetchUserCoordinates)

text \<open>
  The class JSON decode has no exit code of its own. In the example world no body
  decodes: the run with \<open>-auto\<close> fails to decode the IP information and exits with
  code 10, the run with a latitude and a longitude fails to decode the weather snapshot
  and exits with code 4.
\<close>

theorem exit_code_by_failure_class_counterexample:
  "spec_failure example_world
     \<lparr>flag_auto = True, flag_search = [], flag_lat = Fin 0, flag_lon = Fin 0\<rparr>
     = Some JSONDecode
   \<and> snd (main example_world
           \<lparr>flag_auto = True, flag_search = [], flag_lat = Fin 0, flag_lon = Fin 0\<rparr>)
     = Inl (Exit 10)
   \<and> spec_failure example_world
       \<lparr>flag_auto = False, flag_search = [], flag_lat = Fin 48.8534, flag_lon = Fin 2.3488\<rparr>
     = Some JSONDecode
   \<and> snd (main example_world
           \<lparr>flag_auto = False, flag_search = [], flag_lat = Fin 48.8534, flag_lon = Fin 2.3488\<rparr>)
     = Inl (Exit 4)"
  by (simp add: spec_failure_def spec_weather_failure_def spec_decoded_def spec_transport_def
      example_world_def main_def snd_bind snd_fetchUserCoordinates snd_findWeather)

text \<open>
  In the example world the search for \<open>Paris\<close> ends with code 4 and the run with
  \<open>-auto\<close> with a code of the class JSON decode; the run without flags meets no failure
  and does not exit with a code.
\<close>

theorem exit_code_by_failure_class_witness:
  "spec_failure example_world
     \<lparr>flag_auto = True, flag_search = [], flag_lat = Fin 0, flag_lon = Fin 0\<rparr>
     = Some JSONDecode
   \<and> snd (main example_world
           \<lparr>flag_auto = True, flag_search = [], flag_lat = Fin 0, flag_lon = Fin 0\<rparr>)
       \<in> {Inl (Exit 4), Inl (Exit 10)}
   \<and> spec_failure example_world
       \<lparr>flag_auto = False, flag_search = [], flag_lat = Fin 0, flag_lon = Fin 0\<rparr>
     = None
   \<and> snd (main example_world
           \<lparr>flag_auto = False, flag_search = [], flag_lat = Fin 0, flag_lon = Fin 0\<rparr>)
       \<noteq> Inl (Exit 4)
   \<and> set (exit_codes JSONDecode) \<inter> set (exit_codes BodyRead) = {}
   \<and> snd (findCoordinate example_world ''Paris'') = Inl (Exit 4)
   \<and> snd (findWeather example_world \<lparr>Lat = Fin 48.8534, Lon = Fin 2.3488\<rparr>) = Inl (Exit 4)
   \<and> snd (fetchUserCoordinates example_world) = Inl (Exit 10)"
  using exit_code_by_failure_class
      [where W = example_world and k = JSONDecode and k' = BodyRead and n = 4
         and F = "\<lparr>flag_auto = True, flag_search = [], flag_lat = Fin 0, flag_lon = Fin 0\<rparr>"
         and l = "''Paris''" and c = "\<lparr>Lat = Fin 48.8534, Lon = Fin 2.3488\<rparr>"]
    exit_code_by_failure_class
      [where W = example_world and k = JSONDecode and k' = BodyRead and n = 4
         and F = "\<lparr>flag_auto = False, flag_search = [], flag_lat = Fin 0, flag_lon = Fin 0\<rparr>"
         and l = "''Paris''" and c = "\<lparr>Lat = Fin 48.8534, Lon = Fin 2.3488\<rparr>"]
  by (auto simp: spec_failure_def spec_weather_failure_def spec_decoded_def spec_transport_def
      example_world_def)

text \<open>
  A run without failure: the search for \<open>Paris\<close> gives three candidates, the line
  \<open>2\<close> is read, and the run ends after the report.
\<close>

lemma search_scenario:
  "snd (main example_service
          \<lparr>flag_auto = False, flag_search = ''Paris'', flag_lat = Fin 0, flag_lon = Fin 0\<rparr>)
     = Inr ()
   \<and> spec_failure example_service
          \<lparr>flag_auto = False, flag_search = ''Paris'', flag_lat = Fin 0, flag_lon = Fin 0\<rparr> = None"
  by (simp add: snd_main_search snd_findCoordinate snd_chosen snd_bind snd_findWeather
      spec_decoded_def spec_transport_def spec_select_def spec_failure_def spec_weather_failure_def
      example_service_def example_world_def
      example_locations_def TrimSpace_def trim.simps leading_def spaces_def
      Atoi_def isDigit_def digits_value_def print_unfold example_snapshot_def example_current_def)

subsection \<open>IP Geolocator\<close>

text \<open>
  C7. When the IP information does not decode, the process writes the progress line, the
  line \<open>Failed to parse IP info\<close> and the error, and exits with code 10. The body
  received, \<open>not json\<close> here, is not written.
\<close>

theorem ipinfo_decode_failure_output:
  "fetchUserCoordinates example_world
     = ([''[@] Fetching your coordinates'' @ nl, ''Failed to parse IP info'' @ nl,
         ''invalid character'' @ nl], Inl (Exit 10))
   \<and> ''not json'' @ nl \<notin> set (fst (fetchUserCoordinates example_world))"
  by (simp add: fetchUserCoordinates_def fetch_def proc_simps os_Exit_def example_world_def
      nl_def)

text \<open>
  The two other decoders of the program do write the body before they exit: here
  Weather Fetch, on the same body.
\<close>

lemma weather_decode_failure_output:
  "findWeather example_world \<lparr>Lat = Fin 48.8534, Lon = Fin 2.3488\<rparr>
     = ([''[@] Searching for weather'' @ nl, ''Failed to marshal response to JSON'' @ nl,
         ''invalid character'' @ nl, ''not json'' @ nl], Inl (Exit 4))"
  by (simp add: findWeather_def fetch_def proc_simps os_Exit_def example_world_def Let_def)

subsection \<open>The coordinate given on the command line\<close>

lemma weather_report_starts:
  "hd (fst (bind (findWeather W c) f)) = ''[@] Searching for weather'' @ nl"
  by (simp add: findWeather_def seq_Println bind_unfold split: sum.splits)

text \<open>
  C3, as the code has it. Without \<open>-auto\<close> and without \<open>-search\<close>, the coordinate of the
  flags goes to Weather Fetch and the result to the renderer exactly when the latitude
  differs from 0 and the longitude differs from 0; when either of them is 0 the program
  writes the usage line and ends.
\<close>

theorem latlon_gate:
  "\<not> flag_auto F \<Longrightarrow> flag_search F = [] \<Longrightarrow>
   main W F =
     (if ne_zero (flag_lat F) \<and> ne_zero (flag_lon F)
      then bind (findWeather W \<lparr>Lat = flag_lat F, Lon = flag_lon F\<rparr>) (print_weatherData W)
      else Usage)"
  by (simp add: main_def)

text \<open>
  The coordinate (0, 5) is not (0, 0), and it does not reach Weather Fetch: the run
  writes the usage line only.
\<close>

theorem latlon_gate_counterexample:
  "main example_service
      \<lparr>flag_auto = False, flag_search = [], flag_lat = Fin 0, flag_lon = Fin 5\<rparr>
     = Usage
   \<and> ''[@] Searching for weather'' @ nl
       \<notin> set (fst (main example_service
                      \<lparr>flag_auto = False, flag_search = [], flag_lat = Fin 0, flag_lon = Fin 5\<rparr>))"
  by (simp add: main_def Usage_def Print_def nl_def)

text \<open>
  The coordinate (37.7749, -122.4194) reaches Weather Fetch, and the run ends after the
  report; the coordinates (0, 0) and (37.7749, 0) give the usage line.
\<close>

theorem latlon_gate_witness:
  "main example_service
      \<lparr>flag_auto = False, flag_search = [], flag_lat = Fin 37.7749, flag_lon = Fin (- 122.4194)\<rparr>
     = bind (findWeather example_service \<lparr>Lat = Fin 37.7749, Lon = Fin (- 122.4194)\<rparr>)
         (print_weatherData example_service)
   \<and> hd (fst (main example_service
         \<lparr>flag_auto = False, flag_search = [], flag_lat = Fin 37.7749, flag_lon = Fin (- 122.4194)\<rparr>))
     = ''[@] Searching for weather'' @ nl
   \<and> main example_service
        \<lparr>flag_auto = False, flag_search = [], flag_lat = Fin 0, flag_lon = Fin 0\<rparr>
     = Usage
   \<and> main example_service
        \<lparr>flag_auto = False, flag_search = [], flag_lat = Fin 37.7749, flag_lon = Fin 0\<rparr>
     = Usage"
  using latlon_gate
      [of "\<lparr>flag_auto = False, flag_search = [], flag_lat = Fin 37.7749, flag_lon = Fin (- 122.4194)\<rparr>"
          example_service]
    latlon_gate
      [of "\<lparr>flag_auto = False, flag_search = [], flag_lat = Fin 0, flag_lon = Fin 0\<rparr>"
          example_service]
    latlon_gate
      [of "\<lparr>flag_auto = False, flag_search = [], flag_lat = Fin 37.7749, flag_lon = Fin 0\<rparr>"
          example_service]
    weather_report_starts
      [of example_service "\<lparr>Lat = Fin 37.7749, Lon = Fin (- 122.4194)\<rparr>"
          "print_weatherData example_service"]
  by simp

subsection \<open>The icon table\<close>

lemma icon_head:
  "index_map weatherIconEmojis k = []
   \<or> (\<exists>t. index_map weatherIconEmojis k = CHR 0xE2 # t)
   \<or> (\<exists>t. index_map weatherIconEmojis k = CHR 0xF0 # t)"
  by (simp add: index_map_def weatherIconEmojis_def)

lemma icon_line_no_gust:
  "\<not> prefix ''Wind Gust:'' (index_map weatherIconEmojis k @ CHR '' '' # rest)"
  using icon_head [of k] by auto

lemma icon_unknown:
  "k \<notin> set (map fst weatherIconEmojis) \<Longrightarrow> index_map weatherIconEmojis k = []"
  by (simp add: weatherIconEmojis_def index_map_def)

text \<open>
  C5, as the code has it. The table has 18 entries, one for the day and one for the
  night variant of the nine groups 01, 02, 03, 04, 09, 10, 11, 13 and 50, with no key
  twice. The code \<open>01d\<close> gives the sun (the bytes of U+2600 U+FE0F). A code that is not
  in the table gives the empty string, and the renderer then writes the heading without
  a symbol and goes on to the end.
\<close>

theorem icon_table:
  "length weatherIconEmojis = 18
   \<and> map fst weatherIconEmojis
       = concat (map (\<lambda>g. [g @ ''d'', g @ ''n''])
                   [''01'', ''02'', ''03'', ''04'', ''09'', ''10'', ''11'', ''13'', ''50''])
   \<and> distinct (map fst weatherIconEmojis)
   \<and> index_map weatherIconEmojis ''01d''
       = [CHR 0xE2, CHR 0x98, CHR 0x80, CHR 0xEF, CHR 0xB8, CHR 0x8F]
   \<and> (k \<notin> set (map fst weatherIconEmojis) \<longrightarrow> index_map weatherIconEmojis k = [])
   \<and> (Weather (Current w) = c # cs \<and> Icon c \<notin> set (map fst weatherIconEmojis) \<longrightarrow>
        fst (print_weatherData W w) ! 2 = ''  Current Weather: '' @ nl
        \<and> snd (print_weatherData W w) = Inr ())"
proof -
  have "index_map weatherIconEmojis (Icon c) = []"
    if "Icon c \<notin> set (map fst weatherIconEmojis)"
    using that by (rule icon_unknown)
  then have "Weather (Current w) = c # cs \<and> Icon c \<notin> set (map fst weatherIconEmojis) \<longrightarrow>
        fst (print_weatherData W w) ! 2 = ''  Current Weather: '' @ nl
        \<and> snd (print_weatherData W w) = Inr ()"
    by (simp add: print_unfold)
  moreover have "length weatherIconEmojis = 18
   \<and> map fst weatherIconEmojis
       = concat (map (\<lambda>g. [g @ ''d'', g @ ''n''])
                   [''01'', ''02'', ''03'', ''04'', ''09'', ''10'', ''11'', ''13'', ''50''])
   \<and> distinct (map fst weatherIconEmojis)
   \<and> index_map weatherIconEmojis ''01d''
       = [CHR 0xE2, CHR 0x98, CHR 0x80, CHR 0xEF, CHR 0xB8, CHR 0x8F]"
    by (simp add: weatherIconEmojis_def index_map_def)
  moreover have "k \<notin> set (map fst weatherIconEmojis) \<longrightarrow> index_map weatherIconEmojis k = []"
    by (simp add: icon_unknown)
  ultimately show ?thesis by blast
qed

text \<open>The table does not have 19 entries.\<close>

theorem icon_table_counterexample:
  "length weatherIconEmojis = 18 \<and> length weatherIconEmojis \<noteq> 19"
  by (simp add: weatherIconEmojis_def)

text \<open>The code \<open>99z\<close> is not in the table; a snapshot with that code is rendered to the end.\<close>

theorem icon_table_witness:
  "''99z'' \<notin> set (map fst weatherIconEmojis)
   \<and> index_map weatherIconEmojis ''99z'' = []
   \<and> fst (print_weatherData example_world
        (example_snapshot\<lparr>Current := example_current
           \<lparr>Weather := [\<lparr>ID = 0, Main = [], Description = [], Icon = ''99z''\<rparr>]\<rparr>\<rparr>)) ! 2
       = ''  Current Weather: '' @ nl
   \<and> snd (print_weatherData example_world
        (example_snapshot\<lparr>Current := example_current
           \<lparr>Weather := [\<lparr>ID = 0, Main = [], Description = [], Icon = ''99z''\<rparr>]\<rparr>\<rparr>))
       = Inr ()"
  using icon_table
    [where k = "''99z''" and W = example_world and cs = "[]"
       and c = "\<lparr>ID = 0, Main = [], Description = [], Icon = ''99z''\<rparr>"
       and w = "example_snapshot\<lparr>Current := example_current
           \<lparr>Weather := [\<lparr>ID = 0, Main = [], Description = [], Icon = ''99z''\<rparr>]\<rparr>\<rparr>"]
  by (simp add: weatherIconEmojis_def example_snapshot_def example_current_def)

subsection \<open>The renderer: wind gust\<close>

lemma le_zero_not_gt: "le_zero g \<Longrightarrow> \<not> gt_zero g"
  by (cases g) simp_all


lemma gust_lines_nonempty:
  "Weather (Current w) = c # cs \<Longrightarrow>
   wind_gust_lines (fst (print_weatherData W w)) =
     (if gt_zero (WindGust (Current w))
      then [''Wind Gust:           '' @ fmt_f 2 (WindGust (Current w)) @ '' m/s'' @ nl]
      else [])"
  by (simp add: wind_gust_lines_def print_unfold icon_line_no_gust nl_def)

lemma gust_lines_empty:
  "Weather (Current w) = [] \<Longrightarrow> wind_gust_lines (fst (print_weatherData W w)) = []"
  by (simp add: wind_gust_lines_def print_unfold nl_def)

lemma gust_lines_not_gt:
  "\<not> gt_zero (WindGust (Current w)) \<Longrightarrow> wind_gust_lines (fst (print_weatherData W w)) = []"
  by (cases "Weather (Current w)") (simp_all add: gust_lines_nonempty gust_lines_empty)






text \<open>
  C10. A snapshot with a wind gust \<open>\<le> 0\<close>, negative values included, is rendered
  without a wind gust line. For a snapshot with at least one weather condition, as the
  data model requires, the line is written exactly when the wind gust is \<open>> 0\<close>, and
  it is the gust with two decimals.
\<close>

theorem wind_gust_line_iff_positive:
  "(le_zero (WindGust (Current w)) \<longrightarrow> wind_gust_lines (fst (print_weatherData W w)) = [])
   \<and> (Weather (Current w) \<noteq> [] \<longrightarrow>
        (wind_gust_lines (fst (print_weatherData W w)) \<noteq> [] \<longleftrightarrow> gt_zero (WindGust (Current w))))
   \<and> (Weather (Current w) \<noteq> [] \<and> gt_zero (WindGust (Current w)) \<longrightarrow>
        wind_gust_lines (fst (print_weatherData W w))
          = [''Wind Gust:           '' @ fmt_f 2 (WindGust (Current w)) @ '' m/s'' @ nl])"
proof (intro conjI impI)
  assume "le_zero (WindGust (Current w))"
  then show "wind_gust_lines (fst (print_weatherData W w)) = []"
    by (simp add: gust_lines_not_gt le_zero_not_gt)
next
  assume "Weather (Current w) \<noteq> []"
  then obtain c cs where "Weather (Current w) = c # cs"
    by (cases "Weather (Current w)") auto
  then show "wind_gust_lines (fst (print_weatherData W w)) \<noteq> [] \<longleftrightarrow> gt_zero (WindGust (Current w))"
    by (simp add: gust_lines_nonempty)
next
  assume "Weather (Current w) \<noteq> [] \<and> gt_zero (WindGust (Current w))"
  then obtain c cs where "Weather (Current w) = c # cs" and "gt_zero (WindGust (Current w))"
    by (cases "Weather (Current w)") auto
  then show "wind_gust_lines (fst (print_weatherData W w))
          = [''Wind Gust:           '' @ fmt_f 2 (WindGust (Current w)) @ '' m/s'' @ nl]"
    by (simp add: gust_lines_nonempty)
qed

text \<open>A gust of -1.5 gives no line, gusts of 3.5 and 0.004 give one.\<close>

theorem wind_gust_line_iff_positive_witness:
  "wind_gust_lines (fst (print_weatherData example_world
         (example_snapshot\<lparr>Current := example_current\<lparr>WindGust := Fin (- 1.5)\<rparr>\<rparr>))) = []
   \<and> wind_gust_lines (fst (print_weatherData example_world example_snapshot)) \<noteq> []
   \<and> wind_gust_lines (fst (print_weatherData example_world
         (example_snapshot\<lparr>Current := example_current\<lparr>WindGust := Fin 0.004\<rparr>\<rparr>)))
       = [''Wind Gust:           0.00 m/s'' @ nl]"
  using wind_gust_line_iff_positive
      [of "example_snapshot\<lparr>Current := example_current\<lparr>WindGust := Fin (- 1.5)\<rparr>\<rparr>" example_world]
    wind_gust_line_iff_positive [of example_snapshot example_world]
    wind_gust_line_iff_positive
      [of "example_snapshot\<lparr>Current := example_current\<lparr>WindGust := Fin 0.004\<rparr>\<rparr>" example_world]
  by (simp add: example_snapshot_def example_current_def
      fixed_def round_half_even_def utoa.simps pad0_def digit_def Let_def)

subsection \<open>The renderer: what it depends on\<close>

text \<open>
  C9. The result of the renderer is a function of the snapshot alone: two runs, in any
  two worlds, give the same texts and end the same way when their snapshots differ at
  most in the minutely, hourly and daily forecasts and in the weather conditions after
  the first one.
\<close>

theorem rendering_ignores_forecasts:
  "print_weatherData W (w\<lparr>Minutely := m, Hourly := h, Daily := d\<rparr>) = print_weatherData W' w
   \<and> (Weather (Current w) = c # cs \<longrightarrow>
        print_weatherData W
          (w\<lparr>Minutely := m, Hourly := h, Daily := d,
             Current := (Current w)\<lparr>Weather := c # cs'\<rparr>\<rparr>)
        = print_weatherData W' w)"
  by (simp add: print_weatherData_def In_def Unix_def index0_def Let_def)

text \<open>
  The example snapshot, with a minutely forecast and a second weather condition added,
  is rendered as before, also on a host in another time zone.
\<close>

theorem rendering_ignores_forecasts_witness:
  "print_weatherData example_world
     (example_snapshot
        \<lparr>Minutely := [\<lparr>m_Dt = 1700000060, m_Precipitation = Fin 0.2\<rparr>], Hourly := [],
         Daily := [],
         Current := example_current
           \<lparr>Weather := [\<lparr>ID = 801, Main = ''Clouds'', Description = ''few clouds'', Icon = ''02d''\<rparr>,
                        \<lparr>ID = 500, Main = ''Rain'', Description = ''light rain'', Icon = ''10d''\<rparr>]\<rparr>\<rparr>)
   = print_weatherData (example_world\<lparr>Local := (\<lambda>s. (''JST'', 32400))\<rparr>) example_snapshot"
  using rendering_ignores_forecasts
    [where W = example_world and w = example_snapshot
       and m = "[\<lparr>m_Dt = 1700000060, m_Precipitation = Fin 0.2\<rparr>]" and h = "[]" and d = "[]"
       and W' = "example_world\<lparr>Local := (\<lambda>s. (''JST'', 32400))\<rparr>"
       and c = "\<lparr>ID = 801, Main = ''Clouds'', Description = ''few clouds'', Icon = ''02d''\<rparr>"
       and cs = "[]"
       and cs' = "[\<lparr>ID = 500, Main = ''Rain'', Description = ''light rain'', Icon = ''10d''\<rparr>]"]
  by (simp add: example_snapshot_def example_current_def)

subsection \<open>The renderer: times\<close>



lemma clock_in_fixed_zone:
  "Format_clock (In (Unix L s) (FixedZone name offset)) = Format_clock (UTC (s + offset))"
  by (simp add: Format_clock_def wall_def In_def Unix_def FixedZone_def UTC_def)







end
